theory Spec2Isabelle
  imports Complex_Main
begin

section \<open>The loan ledger of \<^verbatim>\<open>backend/server.py\<close>\<close>

text \<open>
  The development follows \<^verbatim>\<open>backend/server.py\<close> (the request handlers and the two helper
  functions \<^verbatim>\<open>generate_serial_number\<close> and \<^verbatim>\<open>calculate_interest\<close>) and the model classes of
  \<^verbatim>\<open>backend/models_update.py\<close>.

  Conventions of the embedding:
  \<^item> a Python \<^verbatim>\<open>float\<close> is a real number and its arithmetic is exact; every concrete input
    used below is one on which the exact result and the result in binary floating point
    coincide;
  \<^item> a \<^verbatim>\<open>datetime\<close> is a number of microseconds on the time line together with the flag
    that tells an offset-aware value from a naive one;
  \<^item> the MongoDB collections \<^verbatim>\<open>loans\<close> and \<^verbatim>\<open>payments\<close> are lists in insertion order;
  \<^item> what a handler reads from its environment (the clock, \<^verbatim>\<open>uuid4\<close>) is a parameter;
  \<^item> an \<^verbatim>\<open>HTTPException\<close> or a Python exception is the \<open>Inl\<close> of a sum.
\<close>

subsection \<open>Dates\<close>

record datetime =
  ticks :: int
  tz_aware :: bool

text \<open>
  What a handler can raise: a Python exception that nothing catches, or the
  \<^verbatim>\<open>HTTPException\<close> with its status code and detail.
\<close>

datatype error = TypeError | HTTPException nat string

text \<open>
  \<^verbatim>\<open>a - b\<close> on datetimes: the difference as a number of microseconds; mixing a naive and an
  aware value raises \<^verbatim>\<open>TypeError\<close>.
\<close>

definition sub_datetime :: "datetime \<Rightarrow> datetime \<Rightarrow> error + int" where
  "sub_datetime a b =
     (if tz_aware a = tz_aware b then Inr (ticks a - ticks b) else Inl TypeError)"

definition us_per_day :: int where
  "us_per_day = 86400000000"

text \<open>
  \<^verbatim>\<open>timedelta.days\<close>: a timedelta is normalised with its seconds and microseconds
  non-negative, so the days are the floor of the quotient.
\<close>

definition timedelta_days :: "int \<Rightarrow> int" where
  "timedelta_days delta = delta div us_per_day"

text \<open>\<^verbatim>\<open>datetime.now(timezone.utc)\<close> when the clock reads \<open>now\<close>.\<close>

definition now_utc :: "int \<Rightarrow> datetime" where
  "now_utc now = \<lparr>ticks = now, tz_aware = True\<rparr>"

subsection \<open>Rounding\<close>

text \<open>
  The built-in \<^verbatim>\<open>round(x, ndigits)\<close> of Python 3 rounds the exact value of \<open>x\<close> to the
  nearest multiple of \<open>10 ^ -ndigits\<close> and a tie to the even neighbour.
\<close>

definition round_half_even :: "real \<Rightarrow> int" where
  "round_half_even y =
     (let f = \<lfloor>y\<rfloor>; r = y - of_int f
      in if r < 1 / 2 then f
         else if 1 / 2 < r then f + 1
         else if even f then f else f + 1)"

definition py_round :: "real \<Rightarrow> nat \<Rightarrow> real" where
  "py_round x ndigits = of_int (round_half_even (x * 10 ^ ndigits)) / 10 ^ ndigits"

text \<open>
  For comparison only, the rule of \<^verbatim>\<open>decimal.ROUND_HALF_UP\<close>, which \<^verbatim>\<open>server.py\<close> imports and
  never calls: a tie goes away from zero.
\<close>

definition round_half_up :: "real \<Rightarrow> nat \<Rightarrow> real" where
  "round_half_up x ndigits =
     sgn x * of_int \<lfloor>\<bar>x\<bar> * 10 ^ ndigits + 1 / 2\<rfloor> / 10 ^ ndigits"

subsection \<open>Interest\<close>

text \<open>The dictionary that \<^verbatim>\<open>calculate_interest\<close> returns, one field for each key.\<close>

record interest_info =
  principal :: real
  interest :: real
  total_amount :: real
  days :: int
  interest_type :: string

definition annual_rate :: real where
  "annual_rate = 24 / 100"

text \<open>
  \<^verbatim>\<open>calculate_interest(principal, start_date, current_date=None)\<close>. The last parameter is
  the reading of the clock, used when \<open>current_date\<close> is \<open>None\<close>.
\<close>

definition calculate_interest ::
  "real \<Rightarrow> datetime \<Rightarrow> datetime option \<Rightarrow> int \<Rightarrow> error + interest_info" where
  "calculate_interest p start_date current_date now =
     (let current_date' = (case current_date of None \<Rightarrow> now_utc now | Some c \<Rightarrow> c)
      in case sub_datetime current_date' start_date of
           Inl e \<Rightarrow> Inl e
         | Inr delta \<Rightarrow>
             let total_days = timedelta_days delta;
                 (interest', interest_type') =
                   (if total_days \<le> 365
                    then (p * annual_rate * (of_int total_days / 365), ''simple'')
                    else
                      let years = of_int total_days / 365;
                          total_amount' = p * ((1 + annual_rate) powr years)
                      in (total_amount' - p, ''compound''))
             in Inr \<lparr>principal = p,
                      interest = py_round interest' 2,
                      total_amount = py_round (p + interest') 2,
                      days = total_days,
                      interest_type = interest_type'\<rparr>)"

subsection \<open>The model classes\<close>

text \<open>
  The classes of \<^verbatim>\<open>models_update.py\<close>, which extend those of \<^verbatim>\<open>server.py\<close> by
  \<open>last_interest_payment_date\<close>, \<open>transaction_type\<close>, \<open>principal_paid\<close> and
  \<open>interest_paid\<close>; \<^verbatim>\<open>Item\<close> and \<^verbatim>\<open>ItemCreate\<close> are those of \<^verbatim>\<open>server.py\<close>. A field keeps its
  name; where two classes share a name, or HOL has it already, the field carries the
  class as a suffix (\<open>_item\<close>, \<open>_loan\<close>, \<open>_payment\<close>, \<open>_ic\<close>, \<open>_lc\<close>, \<open>_pc\<close>). A record is
  the parsed object: a field absent from the request already holds its default.
\<close>

record item =
  id_item :: string
  qty :: int
  item_name :: string
  metal :: string
  weight :: real
  percentage :: real
  fine_weight :: real
  value_item :: real

record item_create =
  qty_ic :: int
  item_name_ic :: string
  metal_ic :: string
  weight_ic :: real
  percentage_ic :: real
  fine_weight_ic :: real
  value_ic :: real

record loan =
  id_loan :: string
  serial_no :: string
  customer_id :: string
  customer_name_loan :: string
  principal_amount :: real
  monthly_interest :: real
  loan_date :: datetime
  last_interest_payment_date :: "datetime option"
  status :: string
  items :: "item list"
  created_at_loan :: datetime

record loan_create =
  customer_id_lc :: string
  customer_name_lc :: string
  principal_amount_lc :: real
  monthly_interest_lc :: real
  loan_date_lc :: datetime
  items_lc :: "item_create list"

record payment =
  id_payment :: string
  loan_id :: string
  loan_serial_no :: string
  customer_name :: string
  amount :: real
  payment_date :: datetime
  payment_type :: string
  transaction_type :: string
  principal_paid :: real
  interest_paid :: real
  notes_payment :: "string option"
  created_at :: datetime

record payment_create =
  loan_id_pc :: string
  amount_pc :: real
  payment_date_pc :: datetime
  transaction_type_pc :: string
  principal_paid_pc :: real
  interest_paid_pc :: real
  notes_pc :: "string option"

subsection \<open>The database and the environment\<close>

text \<open>The two collections the ledger uses, each in insertion order.\<close>

record db =
  loans :: "loan list"
  payments :: "payment list"

text \<open>
  What one request reads from outside: the clock at \<^verbatim>\<open>datetime.now(timezone.utc)\<close>, the
  \<^verbatim>\<open>uuid4\<close> of the object it creates and the \<^verbatim>\<open>uuid4\<close> of its \<open>k\<close>-th item.
\<close>

record env =
  clock :: int
  uuid :: string
  item_uuid :: "nat \<Rightarrow> string"

text \<open>\<^verbatim>\<open>db.loans.find_one({"id": loan_id})\<close>: the first document with that id.\<close>

definition find_one_id :: "loan list \<Rightarrow> string \<Rightarrow> loan option" where
  "find_one_id ls i = find (\<lambda>l. id_loan l = i) ls"

text \<open>
  \<^verbatim>\<open>db.loans.find_one({}, sort=[("created_at", -1)])\<close>: a document whose \<open>created_at\<close> is
  greatest. The documents hold \<open>created_at\<close> as the ISO string of a UTC time, and those
  strings are ordered as the times are. MongoDB leaves the choice among equal keys open;
  here the earliest inserted one is taken.
\<close>

fun find_one_latest :: "loan list \<Rightarrow> loan option" where
  "find_one_latest [] = None"
| "find_one_latest (l # ls) =
     (case find_one_latest ls of
        None \<Rightarrow> Some l
      | Some m \<Rightarrow>
          if ticks (created_at_loan l) < ticks (created_at_loan m) then Some m else Some l)"

text \<open>\<^verbatim>\<open>insert_one\<close> on either collection.\<close>

definition insert_loan :: "db \<Rightarrow> loan \<Rightarrow> db" where
  "insert_loan d l = d\<lparr>loans := loans d @ [l]\<rparr>"

definition insert_payment :: "db \<Rightarrow> payment \<Rightarrow> db" where
  "insert_payment d p = d\<lparr>payments := payments d @ [p]\<rparr>"

subsection \<open>Integers and strings\<close>

text \<open>
  \<^verbatim>\<open>str(n)\<close> of an integer, as the f-string \<^verbatim>\<open>f"A{next_num}"\<close> renders it: decimal digits,
  a minus sign before a negative number.
\<close>

definition digit_char :: "nat \<Rightarrow> char" where
  "digit_char n = char_of (48 + n)"

fun digits_of :: "nat \<Rightarrow> string" where
  "digits_of n =
     (if n < 10 then [digit_char n] else digits_of (n div 10) @ [digit_char (n mod 10)])"

declare digits_of.simps [simp del]

definition py_str :: "int \<Rightarrow> string" where
  "py_str i = (if i < 0 then CHR ''-'' # digits_of (nat (- i)) else digits_of (nat i))"

text \<open>
  \<^verbatim>\<open>int(s)\<close> on a string, \<open>None\<close> where Python raises \<^verbatim>\<open>ValueError\<close>: white space around the
  number is dropped, one sign may come first, and the digits may be separated by single
  underscores. The characters are those of ASCII; the digits and spaces of other scripts,
  which Python accepts as well, and CPython's limit of 4300 digits are not modelled.
\<close>

definition is_space :: "char \<Rightarrow> bool" where
  "is_space c = ((of_char c :: nat) \<in> {9, 10, 11, 12, 13, 28, 29, 30, 31, 32})"

definition is_digit :: "char \<Rightarrow> bool" where
  "is_digit c = (48 \<le> (of_char c :: nat) \<and> (of_char c :: nat) \<le> 57)"

definition digit_value :: "char \<Rightarrow> nat" where
  "digit_value c = of_char c - 48"

definition py_strip :: "string \<Rightarrow> string" where
  "py_strip s = rev (dropWhile is_space (rev (dropWhile is_space s)))"

fun parse_digits :: "nat \<Rightarrow> string \<Rightarrow> nat option" where
  "parse_digits acc [] = Some acc"
| "parse_digits acc [c] =
     (if is_digit c then Some (acc * 10 + digit_value c) else None)"
| "parse_digits acc (c # d # cs) =
     (if is_digit c then parse_digits (acc * 10 + digit_value c) (d # cs)
      else if c = CHR ''_'' \<and> is_digit d then parse_digits acc (d # cs)
      else None)"

definition parse_unsigned :: "string \<Rightarrow> nat option" where
  "parse_unsigned s =
     (case s of
        [] \<Rightarrow> None
      | c # cs \<Rightarrow> if is_digit c then parse_digits 0 s else None)"

definition py_int :: "string \<Rightarrow> int option" where
  "py_int s =
     (case py_strip s of
        [] \<Rightarrow> None
      | c # cs \<Rightarrow>
          if c = CHR ''-'' then map_option (\<lambda>n. - int n) (parse_unsigned cs)
          else if c = CHR ''+'' then map_option int (parse_unsigned cs)
          else map_option int (parse_unsigned (c # cs)))"

subsection \<open>Serial numbers and loans\<close>

text \<open>
  \<^verbatim>\<open>generate_serial_number\<close>. The bare \<^verbatim>\<open>except:\<close> turns a failure of \<^verbatim>\<open>int\<close> into 150;
  \<^verbatim>\<open>last_loan.get("serial_no")\<close> is false for the empty string; \<^verbatim>\<open>s[1:]\<close> is \<open>drop 1 s\<close>.
\<close>

definition generate_serial_number :: "db \<Rightarrow> string" where
  "generate_serial_number d =
     (let next_num =
        (case find_one_latest (loans d) of
           None \<Rightarrow> 150
         | Some last_loan \<Rightarrow>
             if serial_no last_loan \<noteq> []
             then (case py_int (drop 1 (serial_no last_loan)) of
                     Some last_num \<Rightarrow> last_num + 1
                   | None \<Rightarrow> 150)
             else 150)
      in ''A'' @ py_str next_num)"

text \<open>\<^verbatim>\<open>Item(**item.model_dump())\<close> and \<^verbatim>\<open>Loan(**loan_dict)\<close> in \<^verbatim>\<open>create_loan\<close>.\<close>

definition make_item :: "string \<Rightarrow> item_create \<Rightarrow> item" where
  "make_item i ic =
     \<lparr>id_item = i, qty = qty_ic ic, item_name = item_name_ic ic, metal = metal_ic ic,
      weight = weight_ic ic, percentage = percentage_ic ic,
      fine_weight = fine_weight_ic ic, value_item = value_ic ic\<rparr>"

definition make_loan :: "string \<Rightarrow> loan_create \<Rightarrow> env \<Rightarrow> loan" where
  "make_loan serial ld e =
     \<lparr>id_loan = uuid e,
      serial_no = serial,
      customer_id = customer_id_lc ld,
      customer_name_loan = customer_name_lc ld,
      principal_amount = principal_amount_lc ld,
      monthly_interest = monthly_interest_lc ld,
      loan_date = loan_date_lc ld,
      last_interest_payment_date = None,
      status = ''active'',
      items = map (\<lambda>(k, ic). make_item (item_uuid e k) ic) (enumerate 0 (items_lc ld)),
      created_at_loan = now_utc (clock e)\<rparr>"

text \<open>The handler of \<^verbatim>\<open>POST /loans\<close>: the new database and the loan it answers with.\<close>

definition create_loan :: "db \<Rightarrow> loan_create \<Rightarrow> env \<Rightarrow> db \<times> loan" where
  "create_loan d ld e =
     (let serial = generate_serial_number d;
          l = make_loan serial ld e
      in (insert_loan d l, l))"


subsection \<open>Payments\<close>

text \<open>
  \<^verbatim>\<open>Payment(**payment_dict)\<close> in \<^verbatim>\<open>create_payment\<close>: the fields of the request, the serial
  number and the customer of the loan, \<open>payment_type\<close> at its default, a fresh id and the
  time of creation.
\<close>

definition make_payment :: "loan \<Rightarrow> payment_create \<Rightarrow> env \<Rightarrow> payment" where
  "make_payment l pd e =
     \<lparr>id_payment = uuid e,
      loan_id = loan_id_pc pd,
      loan_serial_no = serial_no l,
      customer_name = customer_name_loan l,
      amount = amount_pc pd,
      payment_date = payment_date_pc pd,
      payment_type = ''cash'',
      transaction_type = transaction_type_pc pd,
      principal_paid = principal_paid_pc pd,
      interest_paid = interest_paid_pc pd,
      notes_payment = notes_pc pd,
      created_at = now_utc (clock e)\<rparr>"

text \<open>
  The handler of \<^verbatim>\<open>POST /payments\<close>: the database after the request and the answer. The one
  check is that the loan exists.
\<close>

definition create_payment :: "db \<Rightarrow> payment_create \<Rightarrow> env \<Rightarrow> db \<times> (error + payment)" where
  "create_payment d pd e =
     (case find_one_id (loans d) (loan_id_pc pd) of
        None \<Rightarrow> (d, Inl (HTTPException 404 ''Loan not found''))
      | Some l \<Rightarrow>
          let payment_obj = make_payment l pd e
          in (insert_payment d payment_obj, Inr payment_obj))"

subsection \<open>Requests in sequence and requests that overlap\<close>


text \<open>
  \<^verbatim>\<open>create_loan\<close> is a coroutine with two \<^verbatim>\<open>await\<close>s on the database:
  \<^verbatim>\<open>generate_serial_number()\<close>, which reads, and \<^verbatim>\<open>insert_one(doc)\<close>, which writes. Each is one
  step of a task, and the event loop may run a step of another request between them.
\<close>

datatype task =
  Pending loan_create env
| Allocated string loan_create env
| Finished loan

fun step_task :: "db \<Rightarrow> task \<Rightarrow> db \<times> task" where
  "step_task d (Pending ld e) = (d, Allocated (generate_serial_number d) ld e)"
| "step_task d (Allocated serial ld e) =
     (let l = make_loan serial ld e in (insert_loan d l, Finished l))"
| "step_task d (Finished l) = (d, Finished l)"

text \<open>A schedule names, step by step, the task that runs next.\<close>

fun run_schedule :: "nat list \<Rightarrow> db \<Rightarrow> task list \<Rightarrow> db \<times> task list" where
  "run_schedule [] d ts = (d, ts)"
| "run_schedule (i # sched) d ts =
     (if i < length ts
      then let (d', t') = step_task d (ts ! i) in run_schedule sched d' (ts[i := t'])
      else run_schedule sched d ts)"

subsection \<open>Concrete data\<close>

text \<open>Midnight UTC of day \<open>n\<close>.\<close>

definition day :: "int \<Rightarrow> datetime" where
  "day n = \<lparr>ticks = n * us_per_day, tz_aware = True\<rparr>"

definition empty_db :: db where
  "empty_db = \<lparr>loans = [], payments = []\<rparr>"

text \<open>A loan of 36500 made on day 0 at the monthly rate \<open>m\<close>, with the status \<open>st\<close>.\<close>

definition sample_loan :: "real \<Rightarrow> string \<Rightarrow> loan" where
  "sample_loan m st =
     \<lparr>id_loan = ''loan-001'', serial_no = ''A150'', customer_id = ''customer-001'',
      customer_name_loan = ''Rajesh Kumar'', principal_amount = 36500,
      monthly_interest = m, loan_date = day 0, last_interest_payment_date = None,
      status = st, items = [], created_at_loan = day 0\<rparr>"

definition sample_db :: "real \<Rightarrow> string \<Rightarrow> db" where
  "sample_db m st = \<lparr>loans = [sample_loan m st], payments = []\<rparr>"

text \<open>A payment request on that loan, made on day 30.\<close>

definition sample_request :: "real \<Rightarrow> string \<Rightarrow> real \<Rightarrow> real \<Rightarrow> payment_create" where
  "sample_request a tt pp ip =
     \<lparr>loan_id_pc = ''loan-001'', amount_pc = a, payment_date_pc = day 30,
      transaction_type_pc = tt, principal_paid_pc = pp, interest_paid_pc = ip,
      notes_pc = None\<rparr>"

definition sample_env :: "string \<Rightarrow> int \<Rightarrow> env" where
  "sample_env u n = \<lparr>clock = n * us_per_day, uuid = u, item_uuid = (\<lambda>k. u @ ''-'' @ py_str (int k))\<rparr>"


section \<open>Properties\<close>

subsection \<open>Rendering and reading integers\<close>




















lemma py_str_150: "py_str 150 = ''150''"
  by code_simp



subsection \<open>Serial numbers\<close>



subsection \<open>Interest\<close>

lemma timedelta_days_day: "timedelta_days (ticks (day n) - ticks (day m)) = n - m"
proof -
  have "ticks (day n) - ticks (day m) = (n - m) * us_per_day"
    by (simp add: day_def left_diff_distrib)
  then show ?thesis
    by (simp add: timedelta_days_def us_per_day_def)
qed

lemma calculate_interest_value:
  assumes "tz_aware cur = tz_aware start"
  shows "calculate_interest p start (Some cur) now =
    Inr \<lparr>principal = p,
         interest = py_round (if timedelta_days (ticks cur - ticks start) \<le> 365
            then p * (24 / 100) * (of_int (timedelta_days (ticks cur - ticks start)) / 365)
            else p * (1 + 24 / 100) powr (of_int (timedelta_days (ticks cur - ticks start)) / 365) - p) 2,
         total_amount = py_round (if timedelta_days (ticks cur - ticks start) \<le> 365
            then p + p * (24 / 100) * (of_int (timedelta_days (ticks cur - ticks start)) / 365)
            else p * (1 + 24 / 100) powr (of_int (timedelta_days (ticks cur - ticks start)) / 365)) 2,
         days = timedelta_days (ticks cur - ticks start),
         interest_type = (if timedelta_days (ticks cur - ticks start) \<le> 365
            then ''simple'' else ''compound'')\<rparr>"
  using assms
  by (simp add: calculate_interest_def sub_datetime_def annual_rate_def Let_def)








text \<open>
  C9. The two amounts are rounded with the built-in \<^verbatim>\<open>round\<close>, which sends a tie to the even
  neighbour. On the principal 4.6875 over 365 days the unrounded interest is exactly
  1.125; the result carries 1.12, where rounding half up gives 1.13.
\<close>

theorem rounding_tie_goes_to_even:
  "calculate_interest (75 / 16) (day 0) (Some (day 365)) 0 =
     Inr \<lparr>principal = 75 / 16, interest = 112 / 100, total_amount = 581 / 100,
          days = 365, interest_type = ''simple''\<rparr> \<and>
   (75 / 16) * (24 / 100) * (365 / 365) = (1125 / 1000 :: real) \<and>
   round_half_up (1125 / 1000) 2 = 113 / 100"
proof -
  have a: "tz_aware (day 365) = tz_aware (day 0)"
    by (simp add: day_def)
  have r1: "py_round (9 / 8) 2 = 112 / 100"
    by (simp add: py_round_def round_half_even_def Let_def)
  have r2: "py_round (93 / 16) 2 = 581 / 100"
    by (simp add: py_round_def round_half_even_def Let_def)
  have c: "calculate_interest (75 / 16) (day 0) (Some (day 365)) 0 =
     Inr \<lparr>principal = 75 / 16, interest = 112 / 100, total_amount = 581 / 100,
          days = 365, interest_type = ''simple''\<rparr>"
    using r1 r2 by (simp add: calculate_interest_value [OF a] timedelta_days_day)
  have u: "round_half_up (1125 / 1000) 2 = 113 / 100"
    by (simp add: round_half_up_def)
  from c u show ?thesis by simp
qed

subsection \<open>The interest of a loan\<close>





lemma find_sample: "find_one_id (loans (sample_db m st)) ''loan-001'' = Some (sample_loan m st)"
  by (simp add: find_one_id_def sample_db_def sample_loan_def)



subsection \<open>Payments\<close>

lemma create_payment_missing:
  "find_one_id (loans d) (loan_id_pc pd) = None \<Longrightarrow>
   create_payment d pd e = (d, Inl (HTTPException 404 ''Loan not found''))"
  by (simp add: create_payment_def)

lemma create_payment_found:
  "find_one_id (loans d) (loan_id_pc pd) = Some l \<Longrightarrow>
   create_payment d pd e =
     (d\<lparr>payments := payments d @ [make_payment l pd e]\<rparr>, Inr (make_payment l pd e))"
  by (simp add: create_payment_def insert_payment_def Let_def)

lemma create_payment_loans: "loans (fst (create_payment d pd e)) = loans d"
  by (simp add: create_payment_def insert_payment_def Let_def split: option.splits)

lemma find_sample_request:
  "find_one_id (loans (sample_db m st)) (loan_id_pc (sample_request a tt pp ip)) =
     Some (sample_loan m st)"
  by (simp add: sample_request_def find_sample)

text \<open>
  C4 (amended). A payment request fails only when the loan it names is absent: the answer
  is then the error 404 \<open>Loan not found\<close>, no payment is appended and no loan changes. When
  the loan exists the request succeeds whatever the amount, the split and the status of
  the loan are, and appends the one payment built from it; the loans are as before in
  every case.
\<close>

theorem create_payment_outcomes:
  "loans (fst (create_payment d pd e)) = loans d \<and>
   (find_one_id (loans d) (loan_id_pc pd) = None \<longrightarrow>
      create_payment d pd e = (d, Inl (HTTPException 404 ''Loan not found''))) \<and>
   (\<forall>l. find_one_id (loans d) (loan_id_pc pd) = Some l \<longrightarrow>
      create_payment d pd e =
        (d\<lparr>payments := payments d @ [make_payment l pd e]\<rparr>, Inr (make_payment l pd e)))"
  by (simp add: create_payment_loans create_payment_missing create_payment_found)

theorem create_payment_outcomes_witness:
  "find_one_id (loans empty_db) (loan_id_pc (sample_request 1000 ''both'' 600 400)) = None \<and>
   create_payment empty_db (sample_request 1000 ''both'' 600 400) (sample_env ''pay-1'' 30) =
     (empty_db, Inl (HTTPException 404 ''Loan not found'')) \<and>
   find_one_id (loans (sample_db 2 ''closed'')) (loan_id_pc (sample_request 1000 ''both'' 600 500)) =
     Some (sample_loan 2 ''closed'') \<and>
   create_payment (sample_db 2 ''closed'') (sample_request 1000 ''both'' 600 500)
       (sample_env ''pay-1'' 30) =
     (\<lparr>loans = [sample_loan 2 ''closed''],
       payments = [make_payment (sample_loan 2 ''closed'') (sample_request 1000 ''both'' 600 500)
         (sample_env ''pay-1'' 30)]\<rparr>,
      Inr (make_payment (sample_loan 2 ''closed'') (sample_request 1000 ''both'' 600 500)
         (sample_env ''pay-1'' 30)))"
proof -
  have n: "find_one_id (loans empty_db) (loan_id_pc (sample_request 1000 ''both'' 600 400)) = None"
    by (simp add: empty_db_def find_one_id_def)
  have f: "find_one_id (loans (sample_db 2 ''closed''))
      (loan_id_pc (sample_request 1000 ''both'' 600 500)) = Some (sample_loan 2 ''closed'')"
    by (rule find_sample_request)
  have a: "create_payment empty_db (sample_request 1000 ''both'' 600 400) (sample_env ''pay-1'' 30) =
     (empty_db, Inl (HTTPException 404 ''Loan not found''))"
    using create_payment_outcomes [of empty_db "sample_request 1000 ''both'' 600 400"
        "sample_env ''pay-1'' 30"] n
    by simp
  have b: "create_payment (sample_db 2 ''closed'') (sample_request 1000 ''both'' 600 500)
       (sample_env ''pay-1'' 30) =
     (\<lparr>loans = [sample_loan 2 ''closed''],
       payments = [make_payment (sample_loan 2 ''closed'') (sample_request 1000 ''both'' 600 500)
         (sample_env ''pay-1'' 30)]\<rparr>,
      Inr (make_payment (sample_loan 2 ''closed'') (sample_request 1000 ''both'' 600 500)
         (sample_env ''pay-1'' 30)))"
    using create_payment_outcomes [of "sample_db 2 ''closed''"
        "sample_request 1000 ''both'' 600 500" "sample_env ''pay-1'' 30"] f
    by (simp add: sample_db_def)
  show ?thesis by (intro conjI n a f b)
qed

text \<open>
  The claim as it was stated fails on a closed loan with the split 600 + 500 of the amount
  1000, and on the amount \<open>-5\<close>: both requests succeed, and the first payment is appended.
\<close>

theorem create_payment_outcomes_counterexample:
  "status (sample_loan 2 ''closed'') = ''closed'' \<and>
   (600 + 500 :: real) \<noteq> 1000 \<and>
   create_payment (sample_db 2 ''closed'') (sample_request 1000 ''both'' 600 500)
       (sample_env ''pay-1'' 30) =
     (\<lparr>loans = [sample_loan 2 ''closed''],
       payments = [\<lparr>id_payment = ''pay-1'', loan_id = ''loan-001'', loan_serial_no = ''A150'',
         customer_name = ''Rajesh Kumar'', amount = 1000, payment_date = day 30,
         payment_type = ''cash'', transaction_type = ''both'', principal_paid = 600,
         interest_paid = 500, notes_payment = None, created_at = day 30\<rparr>]\<rparr>,
      Inr \<lparr>id_payment = ''pay-1'', loan_id = ''loan-001'', loan_serial_no = ''A150'',
         customer_name = ''Rajesh Kumar'', amount = 1000, payment_date = day 30,
         payment_type = ''cash'', transaction_type = ''both'', principal_paid = 600,
         interest_paid = 500, notes_payment = None, created_at = day 30\<rparr>) \<and>
   snd (create_payment (sample_db 2 ''active'') (sample_request (- 5) ''interest'' 0 0)
       (sample_env ''pay-2'' 30)) =
     Inr \<lparr>id_payment = ''pay-2'', loan_id = ''loan-001'', loan_serial_no = ''A150'',
         customer_name = ''Rajesh Kumar'', amount = - 5, payment_date = day 30,
         payment_type = ''cash'', transaction_type = ''interest'', principal_paid = 0,
         interest_paid = 0, notes_payment = None, created_at = day 30\<rparr>"
proof -
  have m: "make_payment (sample_loan 2 st) (sample_request a tt pp ip) (sample_env u 30) =
      \<lparr>id_payment = u, loan_id = ''loan-001'', loan_serial_no = ''A150'',
         customer_name = ''Rajesh Kumar'', amount = a, payment_date = day 30,
         payment_type = ''cash'', transaction_type = tt, principal_paid = pp,
         interest_paid = ip, notes_payment = None, created_at = day 30\<rparr>" for st a tt pp ip u
    by (simp add: make_payment_def sample_loan_def sample_request_def sample_env_def
        now_utc_def day_def)
  show ?thesis
    by (simp add: create_payment_found [OF find_sample_request] m)
      (simp add: sample_db_def sample_loan_def)
qed







subsection \<open>Serial numbers that repeat\<close>




text \<open>A task that runs alone does what the handler does.\<close>

lemma run_one_request:
  "run_schedule [0, 0] d [Pending ld e] =
     (fst (create_loan d ld e), [Finished (snd (create_loan d ld e))])"
  by (simp add: create_loan_def Let_def)

text \<open>
  C8. Two requests to create a loan on a ledger without loans, each of which reads the
  last loan before the other inserts its own, are both given \<open>A150\<close>.
\<close>

theorem overlapping_requests_same_serial:
  "run_schedule [0, 1, 0, 1] empty_db [Pending ld1 e1, Pending ld2 e2] =
     (\<lparr>loans = [make_loan ''A150'' ld1 e1, make_loan ''A150'' ld2 e2], payments = []\<rparr>,
      [Finished (make_loan ''A150'' ld1 e1), Finished (make_loan ''A150'' ld2 e2)]) \<and>
   serial_no (make_loan ''A150'' ld1 e1) = serial_no (make_loan ''A150'' ld2 e2)"
proof -
  have g: "generate_serial_number empty_db = ''A150''"
    by (simp add: generate_serial_number_def empty_db_def py_str_150)
  show ?thesis
    by (simp add: g insert_loan_def Let_def) (simp add: empty_db_def make_loan_def)
qed

end
